theory Spec2Isabelle
  imports Complex_Main "HOL-Library.Word" "HOL-Library.AList"
begin

section \<open>GoPilot: requests, provider calls and the distribution tick (main.go)\<close>

text \<open>
  The development follows \<^verbatim>\<open>src/gopilot/main.go\<close>. The program talks to two
  collaborators: the simulator through \<^verbatim>\<open>app.mate\<close> (type SimMate of the
  simconnect library) and the clients through \<^verbatim>\<open>app.socket\<close>. Both are
  modelled by the sequence of calls the program issues to them, oldest first; what the
  simconnect library and \<^verbatim>\<open>encoding/json\<close> answer is a parameter (record
  \<open>simconnect\<close> below), so that every theorem holds for every behaviour of the
  library.
\<close>

subsection \<open>Data\<close>

type_synonym DWord = "32 word"

text \<open>
  The data type codes of the simconnect library that \<^verbatim>\<open>OnDataReady\<close> names in its
  switch; the codes are distinct (they are the cases of one Go switch). Every other code
  is \<open>DataTypeOther\<close>.
\<close>

datatype DataType =
    DataTypeInt32 | DataTypeInt64 | DataTypeFloat32 | DataTypeFloat64
  | DataTypeString8 | DataTypeString32 | DataTypeString64 | DataTypeString128
  | DataTypeString256 | DataTypeString260 | DataTypeStringV
  | DataTypeOther DWord

text \<open>
  The result of one of the library's conversions applied to a raw value of type \<open>'v\<close>:
  \<^verbatim>\<open>simconnect.ValueToInt32(value)\<close> is \<open>ValueToInt32 value\<close>, and so on.
\<close>

datatype 'v scalar =
    ValueToInt32 'v | ValueToInt64 'v | ValueToFloat32 'v | ValueToFloat64 'v
  | ValueToString 'v

text \<open>
  A value of Go type \<^verbatim>\<open>interface{}\<close> as \<^verbatim>\<open>json.Unmarshal\<close> stores it in
  \<^verbatim>\<open>Message.Data\<close>: nil for JSON null, a string, a float64 for every JSON number
  (a JSON number is finite, hence a real), a bool, a slice or a map.
\<close>

datatype iface =
    INil | IString string | IFloat64 real | IBool bool
  | ISlice "iface list" | IMap "(string \<times> iface) list"

text \<open>
  The values the program puts into the maps it marshals: strings, bools, converted
  simulator values and nested \<^verbatim>\<open>map[string]interface{}\<close>. A Go map is an
  association list with distinct keys, read with \<open>map_of\<close>.
\<close>

datatype 'v json =
    JString string | JBool bool | JScalar "'v scalar"
  | JObject "(string \<times> 'v json) list"

record Message =
  Type :: string
  Meta :: string
  Data :: "string \<rightharpoonup> iface"
  Debug :: string

text \<open>
  One element of the \<^verbatim>\<open>"data"\<close> array of a register message as
  \<^verbatim>\<open>jsonparser.Get\<close> reads it: the raw text of each field that is present.
\<close>

type_synonym entry = "string \<rightharpoonup> string"

text \<open>
  Request and its variables: main.go reads \<^verbatim>\<open>request.ClientID\<close>,
  \<^verbatim>\<open>request.Meta\<close> and ranges over \<^verbatim>\<open>request.Vars\<close> with a defineID as key
  and a value with fields \<^verbatim>\<open>Name\<close> and \<^verbatim>\<open>Moniker\<close>. The Go map
  \<^verbatim>\<open>Vars\<close> is an association list; its order stands for the order in which one
  \<^verbatim>\<open>range\<close> visits the entries, which Go leaves unspecified.
\<close>

record Var =
  Name :: string
  Moniker :: string

record Request =
  ClientID :: string
  Meta :: string
  Vars :: "(DWord \<times> Var) list"

datatype mate_call =
    AddSimVar string string DataType
  | RemoveSimVar DWord
  | SetSimObjectData string string real DataType

datatype 'v socket_call =
    Send string "'v json"
  | Broadcast "'v json"

record 'v App =
  Requests :: "Request list"
  mate :: "mate_call list"
  socket :: "'v socket_call list"

text \<open>
  What the libraries answer. \<open>AddSimVar_defineID\<close> is the defineID that
  \<^verbatim>\<open>app.mate.AddSimVar(name, unit, typ)\<close> returns after the calls issued so far;
  \<open>json_encodes\<close> says whether \<^verbatim>\<open>json.Marshal\<close> can encode a converted value (it
  returns an error on a NaN or infinite float).
\<close>

record 'v simconnect =
  AddSimVar_defineID :: "mate_call list \<Rightarrow> string \<Rightarrow> string \<Rightarrow> DataType \<Rightarrow> DWord"
  StringToDataType :: "string \<Rightarrow> DataType"
  SimVarValueAndDataType :: "DWord \<Rightarrow> 'v option \<times> DataType \<times> bool"
  IsConnected :: bool
  json_encodes :: "'v scalar \<Rightarrow> bool"

datatype panic = InterfaceConversion string

datatype SocketEvent =
    SocketEventConnected string
  | SocketEventDisconnected string
  | SocketEventMessage string Message "entry list"

subsection \<open>The part of the request manager that is not in main.go\<close>

text \<open>
  Modelled from the spec: \<^verbatim>\<open>NewRequest\<close> (the Request type and its constructor are
  not in main.go). A Request is created by a register message with the client's identity
  and meta tag and no subscription yet.
\<close>

definition NewRequest :: "string \<Rightarrow> string \<Rightarrow> Request" where
  "NewRequest clientID meta = \<lparr>ClientID = clientID, Meta = meta, Vars = []\<rparr>"

text \<open>
  Modelled from the spec: \<^verbatim>\<open>Request.Add\<close> (not in main.go). The Request holds the
  mapping registration handle \<open>\<rightarrow>\<close> (name, alias); main.go ranges over it by defineID,
  so storing under a defineID already present overwrites that entry.
\<close>

definition Add :: "Request \<Rightarrow> DWord \<Rightarrow> string \<Rightarrow> string \<Rightarrow> Request" where
  "Add request defineID name moniker =
     request\<lparr>Vars := AList.update defineID \<lparr>Name = name, Moniker = moniker\<rparr> (Vars request)\<rparr>"

text \<open>
  Modelled from the spec: \<^verbatim>\<open>RequestManager.AddRequest\<close> (not in main.go). The spec's
  \<^verbatim>\<open>upsertRequest\<close>: a Request is "replaced wholesale on a subsequent register from
  the same client", so the client's prior Request leaves the registry and the new one
  enters it.
\<close>

definition AddRequest :: "Request list \<Rightarrow> Request \<Rightarrow> Request list" where
  "AddRequest requests request =
     filter (\<lambda>r. ClientID r \<noteq> ClientID request) requests @ [request]"

text \<open>
  Modelled from the spec: \<^verbatim>\<open>RequestManager.RefCount\<close> (not in main.go). The spec's
  \<^verbatim>\<open>subscriberCountFor(variableName)\<close>: it "counts live Subscriptions across all
  Requests whose VariableKey.name matches". main.go passes it the name alone.
\<close>

fun count_vars :: "string \<Rightarrow> (DWord \<times> Var) list \<Rightarrow> int \<Rightarrow> int" where
  "count_vars name [] count = count"
| "count_vars name ((defineID, v) # rest) count =
     count_vars name rest (if Name v = name then count + 1 else count)"

fun count_requests :: "string \<Rightarrow> Request list \<Rightarrow> int \<Rightarrow> int" where
  "count_requests name [] count = count"
| "count_requests name (request # rest) count =
     count_requests name rest (count_vars name (Vars request) count)"

definition RefCount :: "Request list \<Rightarrow> string \<Rightarrow> int" where
  "RefCount requests name = count_requests name requests 0"

subsection \<open>Control messages\<close>

text \<open>
  \<^verbatim>\<open>handleRegisterMessage\<close>: the callback of \<^verbatim>\<open>jsonparser.ArrayEach\<close> runs once
  per element of \<^verbatim>\<open>"data"\<close>; a field that is missing reads as the empty string
  (the errors of \<^verbatim>\<open>jsonparser.Get\<close> are dropped).
\<close>

definition field :: "entry \<Rightarrow> string \<Rightarrow> string" where
  "field e k = (case e k of None \<Rightarrow> [] | Some s \<Rightarrow> s)"

fun ArrayEach ::
  "'v simconnect \<Rightarrow> entry list \<Rightarrow> Request \<times> mate_call list \<Rightarrow> Request \<times> mate_call list" where
  "ArrayEach sc [] (request, calls) = (request, calls)"
| "ArrayEach sc (e # rest) (request, calls) =
     (let name = field e ''name'';
          unit = field e ''unit'';
          typ = StringToDataType sc (field e ''type'');
          moniker = field e ''moniker'';
          defineID = AddSimVar_defineID sc calls name unit typ
      in ArrayEach sc rest (Add request defineID name moniker, calls @ [AddSimVar name unit typ]))"

definition handleRegisterMessage ::
  "'v simconnect \<Rightarrow> 'v App \<Rightarrow> Message \<Rightarrow> entry list \<Rightarrow> string \<Rightarrow> 'v App" where
  "handleRegisterMessage sc app msg raw connID =
     (case ArrayEach sc raw (NewRequest connID (Message.Meta msg), mate app) of
        (request, calls) \<Rightarrow>
          app\<lparr>Requests := AddRequest (Requests app) request, mate := calls\<rparr>)"

text \<open>
  \<^verbatim>\<open>removeRequests\<close>: the first loop splits the Requests into \<^verbatim>\<open>temp\<close> and
  \<^verbatim>\<open>removed\<close>; the second runs after \<^verbatim>\<open>Requests = temp\<close>, so
  \<^verbatim>\<open>RefCount\<close> counts over the Requests that remain.
\<close>

fun split_requests ::
  "string \<Rightarrow> Request list \<Rightarrow> Request list \<times> Request list \<Rightarrow> Request list \<times> Request list" where
  "split_requests connID [] (temp, removed) = (temp, removed)"
| "split_requests connID (request # rest) (temp, removed) =
     (if ClientID request \<noteq> connID
      then split_requests connID rest (temp @ [request], removed)
      else split_requests connID rest (temp, removed @ [request]))"

fun remove_vars :: "Request list \<Rightarrow> (DWord \<times> Var) list \<Rightarrow> mate_call list \<Rightarrow> mate_call list" where
  "remove_vars requests [] calls = calls"
| "remove_vars requests ((defineID, v) # rest) calls =
     (let count = RefCount requests (Name v)
      in if count = 0
         then remove_vars requests rest (calls @ [RemoveSimVar defineID])
         else remove_vars requests rest calls)"

fun remove_removed :: "Request list \<Rightarrow> Request list \<Rightarrow> mate_call list \<Rightarrow> mate_call list" where
  "remove_removed requests [] calls = calls"
| "remove_removed requests (request # rest) calls =
     remove_removed requests rest (remove_vars requests (Vars request) calls)"

definition removeRequests :: "'v App \<Rightarrow> string \<Rightarrow> 'v App" where
  "removeRequests app connID =
     (case split_requests connID (Requests app) ([], []) of
        (temp, removed) \<Rightarrow>
          app\<lparr>Requests := temp, mate := remove_removed temp removed (mate app)\<rparr>)"

definition handleDeregisterMessage :: "'v App \<Rightarrow> Message \<Rightarrow> string \<Rightarrow> 'v App" where
  "handleDeregisterMessage app msg connID = removeRequests app connID"

text \<open>
  The type assertions \<^verbatim>\<open>msg.Data[k].(string)\<close> and \<^verbatim>\<open>msg.Data[k].(float64)\<close>
  have the one-result form: they panic when the value is nil (the key is missing, or
  \<^verbatim>\<open>Data\<close> itself is nil) or has another dynamic type.
\<close>

fun assert_string :: "string \<Rightarrow> iface option \<Rightarrow> panic + string" where
  "assert_string k (Some (IString s)) = Inr s"
| "assert_string k _ = Inl (InterfaceConversion k)"

fun assert_float64 :: "string \<Rightarrow> iface option \<Rightarrow> panic + real" where
  "assert_float64 k (Some (IFloat64 x)) = Inr x"
| "assert_float64 k _ = Inl (InterfaceConversion k)"

definition bind :: "panic + 'a \<Rightarrow> ('a \<Rightarrow> panic + 'b) \<Rightarrow> panic + 'b" where
  "bind m f = (case m of Inl p \<Rightarrow> Inl p | Inr x \<Rightarrow> f x)"

definition handleTeleportMessage :: "'v App \<Rightarrow> Message \<Rightarrow> panic + 'v App" where
  "handleTeleportMessage app msg =
     bind (assert_float64 ''latitude'' (Data msg ''latitude'')) (\<lambda>latitude.
     bind (assert_float64 ''longitude'' (Data msg ''longitude'')) (\<lambda>longitude.
     bind (assert_float64 ''altitude'' (Data msg ''altitude'')) (\<lambda>altitude.
     bind (assert_float64 ''heading'' (Data msg ''heading'')) (\<lambda>heading.
     bind (assert_float64 ''airspeed'' (Data msg ''airspeed'')) (\<lambda>airspeed.
       let bank = 0; pitch = 0
       in Inr (app\<lparr>mate := mate app @
           [SetSimObjectData ''PLANE LATITUDE'' ''degrees'' latitude DataTypeFloat64,
            SetSimObjectData ''PLANE LONGITUDE'' ''degrees'' longitude DataTypeFloat64,
            SetSimObjectData ''PLANE ALTITUDE'' ''feet'' altitude DataTypeFloat64,
            SetSimObjectData ''PLANE HEADING DEGREES TRUE'' ''degrees'' heading DataTypeFloat64,
            SetSimObjectData ''AIRSPEED TRUE'' ''knot'' airspeed DataTypeFloat64,
            SetSimObjectData ''PLANE BANK DEGREES'' ''degrees'' bank DataTypeFloat64,
            SetSimObjectData ''PLANE PITCH DEGREES'' ''degrees'' pitch DataTypeFloat64]\<rparr>))))))"

text \<open>
  \<^verbatim>\<open>handleSetDataMessage\<close>: the error that \<^verbatim>\<open>SetSimObjectData\<close> returns is only
  printed.
\<close>

definition handleSetDataMessage :: "'v App \<Rightarrow> Message \<Rightarrow> panic + 'v App" where
  "handleSetDataMessage app msg =
     bind (assert_string ''name'' (Data msg ''name'')) (\<lambda>name.
     bind (assert_string ''unit'' (Data msg ''unit'')) (\<lambda>unit.
     bind (assert_float64 ''value'' (Data msg ''value'')) (\<lambda>value.
       Inr (app\<lparr>mate := mate app @ [SetSimObjectData name unit value DataTypeFloat64]\<rparr>))))"

text \<open>
  One turn of the loop of \<^verbatim>\<open>handleSocketMessages\<close>, and the loop over the events
  that arrive. A panic is not recovered anywhere, so it ends the loop (and the process).
\<close>

definition handleSocketEvent :: "'v simconnect \<Rightarrow> 'v App \<Rightarrow> SocketEvent \<Rightarrow> panic + 'v App" where
  "handleSocketEvent sc app event =
     (case event of
        SocketEventConnected uuid \<Rightarrow> Inr app
      | SocketEventDisconnected uuid \<Rightarrow> Inr (removeRequests app uuid)
      | SocketEventMessage uuid msg raw \<Rightarrow>
          if Type msg = ''register'' then Inr (handleRegisterMessage sc app msg raw uuid)
          else if Type msg = ''deregister'' then Inr (handleDeregisterMessage app msg uuid)
          else if Type msg = ''setdata'' then handleSetDataMessage app msg
          else if Type msg = ''teleport'' then handleTeleportMessage app msg
          else Inr app)"

fun handleSocketMessages :: "'v simconnect \<Rightarrow> 'v App \<Rightarrow> SocketEvent list \<Rightarrow> panic + 'v App" where
  "handleSocketMessages sc app [] = Inr app"
| "handleSocketMessages sc app (event # events) =
     (case handleSocketEvent sc app event of
        Inl p \<Rightarrow> Inl p
      | Inr app' \<Rightarrow> handleSocketMessages sc app' events)"

subsection \<open>The data-ready tick\<close>

text \<open>
  The switch of \<^verbatim>\<open>OnDataReady\<close>: the conversion whose result is stored, none when
  no case applies.
\<close>

fun switch_dataType :: "DataType \<Rightarrow> 'v \<Rightarrow> 'v scalar option" where
  "switch_dataType DataTypeInt32 value = Some (ValueToInt32 value)"
| "switch_dataType DataTypeInt64 value = Some (ValueToInt64 value)"
| "switch_dataType DataTypeFloat32 value = Some (ValueToFloat32 value)"
| "switch_dataType DataTypeFloat64 value = Some (ValueToFloat64 value)"
| "switch_dataType DataTypeString8 value = Some (ValueToString value)"
| "switch_dataType DataTypeString32 value = Some (ValueToString value)"
| "switch_dataType DataTypeString64 value = Some (ValueToString value)"
| "switch_dataType DataTypeString128 value = Some (ValueToString value)"
| "switch_dataType DataTypeString256 value = Some (ValueToString value)"
| "switch_dataType DataTypeString260 value = Some (ValueToString value)"
| "switch_dataType DataTypeStringV value = Some (ValueToString value)"
| "switch_dataType (DataTypeOther c) value = None"

fun range_Vars ::
  "'v simconnect \<Rightarrow> (DWord \<times> Var) list \<Rightarrow> (string \<times> 'v json) list \<Rightarrow> (string \<times> 'v json) list" where
  "range_Vars sc [] vars = vars"
| "range_Vars sc ((defineID, v) # rest) vars =
     (case SimVarValueAndDataType sc defineID of
        (value, dataType, ok) \<Rightarrow>
          if \<not> ok \<or> value = None then range_Vars sc rest vars
          else (case switch_dataType dataType (the value) of
                  None \<Rightarrow> range_Vars sc rest vars
                | Some c \<Rightarrow> range_Vars sc rest (AList.update (Moniker v) (JScalar c) vars)))"

definition simvars_msg :: "'v simconnect \<Rightarrow> Request \<Rightarrow> (string \<times> 'v json) list" where
  "simvars_msg sc request =
     (let msg = [(''type'', JString ''simvars'')];
          msg = AList.update ''type'' (JString ''simvars'') msg;
          msg = AList.update ''meta'' (JString (Request.Meta request)) msg;
          vars = range_Vars sc (Vars request) []
      in AList.update ''data'' (JObject vars) msg)"

text \<open>
  \<^verbatim>\<open>json.Marshal\<close>: the encoded document is the value itself; the call fails when a
  converted value in it cannot be encoded.
\<close>

fun encodes :: "('v scalar \<Rightarrow> bool) \<Rightarrow> 'v json \<Rightarrow> bool" where
  "encodes enc (JString s) = True"
| "encodes enc (JBool b) = True"
| "encodes enc (JScalar c) = enc c"
| "encodes enc (JObject kvs) = list_all (\<lambda>kv. encodes enc (snd kv)) kvs"

definition json_Marshal :: "'v simconnect \<Rightarrow> 'v json \<Rightarrow> 'v json option" where
  "json_Marshal sc j = (if encodes (json_encodes sc) j then Some j else None)"

fun range_Requests :: "'v simconnect \<Rightarrow> Request list \<Rightarrow> 'v socket_call list \<Rightarrow> 'v socket_call list" where
  "range_Requests sc [] calls = calls"
| "range_Requests sc (request # rest) calls =
     (let msg = simvars_msg sc request;
          recipient = ClientID request
      in case json_Marshal sc (JObject msg) of
           Some buf \<Rightarrow> range_Requests sc rest (calls @ [Send recipient buf])
         | None \<Rightarrow> range_Requests sc rest calls)"

definition status_msg :: "'v simconnect \<Rightarrow> 'v json" where
  "status_msg sc =
     (let data = [(''simconnect'', JBool (IsConnected sc))]
      in JObject [(''type'', JString ''status''), (''data'', JObject data)])"

text \<open>\<^verbatim>\<open>BroadcastStatusMessage\<close> returns the error of \<^verbatim>\<open>json.Marshal\<close>, if any.\<close>

definition BroadcastStatusMessage :: "'v simconnect \<Rightarrow> 'v socket_call list \<Rightarrow> bool \<times> 'v socket_call list" where
  "BroadcastStatusMessage sc calls =
     (case json_Marshal sc (status_msg sc) of
        None \<Rightarrow> (True, calls)
      | Some buf \<Rightarrow> (False, calls @ [Broadcast buf]))"

definition OnDataReady :: "'v simconnect \<Rightarrow> 'v App \<Rightarrow> 'v App" where
  "OnDataReady sc app =
     app\<lparr>socket := snd (BroadcastStatusMessage sc (range_Requests sc (Requests app) (socket app)))\<rparr>"

text \<open>\<^verbatim>\<open>NewApp\<close>: no Request, nothing issued yet.\<close>

definition NewApp :: "'v App" where
  "NewApp = \<lparr>Requests = [], mate = [], socket = []\<rparr>"

subsection \<open>Observations and well-formed messages\<close>

text \<open>The payloads broadcast, and the payloads sent to one client, in the order issued.\<close>

fun broadcasts :: "'v socket_call list \<Rightarrow> 'v json list" where
  "broadcasts [] = []"
| "broadcasts (Broadcast p # calls) = p # broadcasts calls"
| "broadcasts (Send recipient p # calls) = broadcasts calls"

fun sent_to :: "string \<Rightarrow> 'v socket_call list \<Rightarrow> 'v json list" where
  "sent_to c [] = []"
| "sent_to c (Broadcast p # calls) = sent_to c calls"
| "sent_to c (Send recipient p # calls) =
     (if recipient = c then p # sent_to c calls else sent_to c calls)"

text \<open>
  A setdata message has its fields when \<^verbatim>\<open>data\<close> holds a string \<^verbatim>\<open>name\<close>, a
  string \<^verbatim>\<open>unit\<close> and a number \<^verbatim>\<open>value\<close>; a teleport message when it holds
  the five numbers. An event is malformed when it is a setdata or teleport message without
  its fields.
\<close>

fun is_string :: "iface option \<Rightarrow> bool" where
  "is_string (Some (IString s)) = True"
| "is_string _ = False"

fun is_float64 :: "iface option \<Rightarrow> bool" where
  "is_float64 (Some (IFloat64 x)) = True"
| "is_float64 _ = False"

definition setdata_fields :: "Message \<Rightarrow> bool" where
  "setdata_fields msg \<longleftrightarrow>
     is_string (Data msg ''name'') \<and> is_string (Data msg ''unit'') \<and>
     is_float64 (Data msg ''value'')"

definition teleport_fields :: "Message \<Rightarrow> bool" where
  "teleport_fields msg \<longleftrightarrow>
     is_float64 (Data msg ''latitude'') \<and> is_float64 (Data msg ''longitude'') \<and>
     is_float64 (Data msg ''altitude'') \<and> is_float64 (Data msg ''heading'') \<and>
     is_float64 (Data msg ''airspeed'')"

fun malformed :: "SocketEvent \<Rightarrow> bool" where
  "malformed (SocketEventMessage uuid msg raw) =
     (Type msg = ''setdata'' \<and> \<not> setdata_fields msg \<or>
      Type msg = ''teleport'' \<and> \<not> teleport_fields msg)"
| "malformed _ = False"

subsection \<open>The payload a tick owes to a Request\<close>

text \<open>
  The conversion by declared type, in the words of the specification: a signed 32-bit
  integer, a signed 64-bit integer, a 32-bit float, a 64-bit float or a string; a value
  of any other type has no conversion.
\<close>

definition string_types :: "DataType set" where
  "string_types = {DataTypeString8, DataTypeString32, DataTypeString64, DataTypeString128,
     DataTypeString256, DataTypeString260, DataTypeStringV}"


definition converted :: "DataType \<Rightarrow> 'v \<Rightarrow> 'v scalar option" where
  "converted typ x =
     (if typ = DataTypeInt32 then Some (ValueToInt32 x)
      else if typ = DataTypeInt64 then Some (ValueToInt64 x)
      else if typ = DataTypeFloat32 then Some (ValueToFloat32 x)
      else if typ = DataTypeFloat64 then Some (ValueToFloat64 x)
      else if typ \<in> string_types then Some (ValueToString x)
      else None)"

text \<open>
  The value a tick stores for a defineID: the converted value when the simulator has one
  (the read succeeds with a value that is not nil), none otherwise. \<open>alias_value\<close> is
  the value a Request's payload holds under an alias: that of the subscription visited
  last among those with this alias that have a value. \<open>payload_encodes\<close> says that
  \<^verbatim>\<open>json.Marshal\<close> can encode every value of the payload.
\<close>

definition found_value :: "'v simconnect \<Rightarrow> DWord \<Rightarrow> 'v scalar option" where
  "found_value sc defineID =
     (case SimVarValueAndDataType sc defineID of
        (Some x, typ, True) \<Rightarrow> converted typ x
      | _ \<Rightarrow> None)"

definition alias_value :: "'v simconnect \<Rightarrow> Request \<Rightarrow> string \<Rightarrow> 'v json option" where
  "alias_value sc r a =
     (case find (\<lambda>(defineID, v). Moniker v = a \<and> found_value sc defineID \<noteq> None)
             (rev (Vars r)) of
        None \<Rightarrow> None
      | Some (defineID, v) \<Rightarrow> map_option JScalar (found_value sc defineID))"

definition payload_encodes :: "'v simconnect \<Rightarrow> Request \<Rightarrow> bool" where
  "payload_encodes sc r =
     list_all (\<lambda>(defineID, v).
                 case alias_value sc r (Moniker v) of
                   None \<Rightarrow> True
                 | Some j \<Rightarrow> encodes (json_encodes sc) j)
              (Vars r)"

text \<open>The socket calls of one turn of the loop over the Requests.\<close>

definition request_calls :: "'v simconnect \<Rightarrow> Request \<Rightarrow> 'v socket_call list" where
  "request_calls sc r =
     (case json_Marshal sc (JObject (simvars_msg sc r)) of
        Some buf \<Rightarrow> [Send (ClientID r) buf]
      | None \<Rightarrow> [])"

subsection \<open>Example inputs\<close>

text \<open>
  Two clients that subscribe to the same variable under different aliases, as in the
  scenario of the specification, and the state in which both are registered.
\<close>

definition request_A :: Request where
  "request_A = \<lparr>ClientID = ''A'', Meta = ''panel1'',
     Vars = [(3, \<lparr>Name = ''AIRSPEED TRUE'', Moniker = ''spd''\<rparr>)]\<rparr>"

definition request_B :: Request where
  "request_B = \<lparr>ClientID = ''B'', Meta = ''panel2'',
     Vars = [(3, \<lparr>Name = ''AIRSPEED TRUE'', Moniker = ''airspeed''\<rparr>)]\<rparr>"

definition two_clients :: "real App" where
  "two_clients = \<lparr>Requests = [request_A, request_B],
     mate = [AddSimVar ''AIRSPEED TRUE'' ''knot'' DataTypeFloat64,
             AddSimVar ''AIRSPEED TRUE'' ''knot'' DataTypeFloat64],
     socket = []\<rparr>"

text \<open>
  A simulator library for the examples: it hands out one defineID for each
  (name, unit) it is asked to add; it reports Float64 values for defineID 1 and 3
  (the true airspeed, 123.4), a value of a type without conversion for defineID 2 and
  no value for any other defineID.
\<close>

definition demo_defineID :: "mate_call list \<Rightarrow> string \<Rightarrow> string \<Rightarrow> DataType \<Rightarrow> DWord" where
  "demo_defineID calls name unit typ =
     (if name = ''PLANE ALTITUDE'' \<and> unit = ''feet'' then 1
      else if name = ''PLANE ALTITUDE'' \<and> unit = ''meters'' then 2
      else if name = ''AIRSPEED TRUE'' \<and> unit = ''knot'' then 3
      else 4)"

definition demo_StringToDataType :: "string \<Rightarrow> DataType" where
  "demo_StringToDataType s = (if s = ''Float64'' then DataTypeFloat64 else DataTypeOther 0)"

definition demo_values :: "DWord \<Rightarrow> real option \<times> DataType \<times> bool" where
  "demo_values defineID =
     (if defineID = 1 then (Some 1200, DataTypeFloat64, True)
      else if defineID = 2 then (Some 365, DataTypeOther 0, True)
      else if defineID = 3 then (Some (1234 / 10), DataTypeFloat64, True)
      else (None, DataTypeOther 0, False))"

definition demo_simconnect :: "real simconnect" where
  "demo_simconnect =
     \<lparr>AddSimVar_defineID = demo_defineID, StringToDataType = demo_StringToDataType,
      SimVarValueAndDataType = demo_values, IsConnected = True,
      json_encodes = (\<lambda>c. True)\<rparr>"

text \<open>The teleport message of the specification's scenario, and a setdata message without a name.\<close>

definition teleport_msg :: Message where
  "teleport_msg = \<lparr>Type = ''teleport'', Meta = [],
     Data = [''latitude'' \<mapsto> IFloat64 47, ''longitude'' \<mapsto> IFloat64 8,
             ''altitude'' \<mapsto> IFloat64 1200, ''heading'' \<mapsto> IFloat64 90,
             ''airspeed'' \<mapsto> IFloat64 120],
     Debug = []\<rparr>"

definition setdata_no_name :: Message where
  "setdata_no_name = \<lparr>Type = ''setdata'', Meta = [],
     Data = [''unit'' \<mapsto> IString ''feet'', ''value'' \<mapsto> IFloat64 1000], Debug = []\<rparr>"


text \<open>Register and deregister events, and a client whose second variable has no handled type.\<close>

definition subscription :: "string \<Rightarrow> string \<Rightarrow> string \<Rightarrow> string \<Rightarrow> entry" where
  "subscription name unit typ moniker =
     [''name'' \<mapsto> name, ''unit'' \<mapsto> unit, ''type'' \<mapsto> typ, ''moniker'' \<mapsto> moniker]"

definition register_msg :: "string \<Rightarrow> Message" where
  "register_msg meta = \<lparr>Type = ''register'', Meta = meta, Data = Map.empty, Debug = []\<rparr>"

definition deregister :: "string \<Rightarrow> SocketEvent" where
  "deregister uuid =
     SocketEventMessage uuid \<lparr>Type = ''deregister'', Meta = [], Data = Map.empty, Debug = []\<rparr> []"



section \<open>Properties\<close>

lemmas demo_defs =
  demo_simconnect_def demo_values_def demo_defineID_def demo_StringToDataType_def

subsection \<open>removeRequests\<close>

lemma split_requests_filter:
  "split_requests connID rs (temp, removed) =
     (temp @ filter (\<lambda>r. ClientID r \<noteq> connID) rs,
      removed @ filter (\<lambda>r. ClientID r = connID) rs)"
  by (induction rs arbitrary: temp removed) auto

lemma Requests_removeRequests:
  "Requests (removeRequests app connID) = filter (\<lambda>r. ClientID r \<noteq> connID) (Requests app)"
  by (simp add: removeRequests_def split_requests_filter)

lemma mate_removeRequests:
  "mate (removeRequests app connID) =
     remove_removed (filter (\<lambda>r. ClientID r \<noteq> connID) (Requests app))
       (filter (\<lambda>r. ClientID r = connID) (Requests app)) (mate app)"
  by (simp add: removeRequests_def split_requests_filter)

lemma socket_removeRequests: "socket (removeRequests app connID) = socket app"
  by (simp add: removeRequests_def split_requests_filter)

lemma no_request_of_client:
  "\<forall>r\<in>set rs. ClientID r \<noteq> connID \<Longrightarrow> filter (\<lambda>r. ClientID r = connID) rs = []"
  by (induction rs) auto

text \<open>
  C7. After \<^verbatim>\<open>removeRequests(connID)\<close> no Request of that client is left in the
  registry, the Requests of the other clients are the same as before and in the same
  order, and when the client had no Request the whole state (registry, calls issued to the
  simulator and to the socket) is unchanged.
\<close>

theorem removeRequests_registry:
  "(\<forall>r\<in>set (Requests (removeRequests app connID)). ClientID r \<noteq> connID) \<and>
   filter (\<lambda>r. ClientID r \<noteq> connID) (Requests (removeRequests app connID)) =
     filter (\<lambda>r. ClientID r \<noteq> connID) (Requests app) \<and>
   ((\<forall>r\<in>set (Requests app). ClientID r \<noteq> connID) \<longrightarrow> removeRequests app connID = app)"
proof (intro conjI impI)
  show "\<forall>r\<in>set (Requests (removeRequests app connID)). ClientID r \<noteq> connID"
    by (simp add: Requests_removeRequests)
  show "filter (\<lambda>r. ClientID r \<noteq> connID) (Requests (removeRequests app connID)) =
     filter (\<lambda>r. ClientID r \<noteq> connID) (Requests app)"
    by (simp add: Requests_removeRequests)
next
  assume absent: "\<forall>r\<in>set (Requests app). ClientID r \<noteq> connID"
  then have kept: "filter (\<lambda>r. ClientID r \<noteq> connID) (Requests app) = Requests app"
    by (simp add: filter_id_conv)
  from absent have none: "filter (\<lambda>r. ClientID r = connID) (Requests app) = []"
    by (rule no_request_of_client)
  show "removeRequests app connID = app"
    by (rule App.equality)
       (simp_all add: Requests_removeRequests mate_removeRequests socket_removeRequests kept none)
qed

theorem removeRequests_registry_witness:
  "Requests (removeRequests two_clients ''A'') = [request_B] \<and>
   ClientID request_B \<noteq> ''A'' \<and>
   removeRequests two_clients ''C'' = two_clients"
proof -
  have absent: "\<forall>r\<in>set (Requests two_clients). ClientID r \<noteq> ''C''"
    by (simp add: two_clients_def request_A_def request_B_def)
  have others: "filter (\<lambda>r. ClientID r \<noteq> ''A'') (Requests two_clients) = [request_B]"
    by (simp add: two_clients_def request_A_def request_B_def)
  note fact = removeRequests_registry [of two_clients "''A''"]
  from fact have "\<forall>r\<in>set (Requests (removeRequests two_clients ''A'')). ClientID r \<noteq> ''A''"
    by blast
  then have "filter (\<lambda>r. ClientID r \<noteq> ''A'') (Requests (removeRequests two_clients ''A'')) =
      Requests (removeRequests two_clients ''A'')"
    by (simp add: filter_id_conv)
  with fact others have "Requests (removeRequests two_clients ''A'') = [request_B]"
    by simp
  moreover have "ClientID request_B \<noteq> ''A''"
    by (simp add: request_B_def)
  moreover from removeRequests_registry [of two_clients "''C''"] absent
  have "removeRequests two_clients ''C'' = two_clients"
    by blast
  ultimately show ?thesis by blast
qed

text \<open>
  C8. Calling \<^verbatim>\<open>removeRequests\<close> a second time for the same client changes
  nothing: the registry and the sequence of calls issued to the simulator (so no second
  \<^verbatim>\<open>RemoveSimVar\<close>) are those left by the first call.
\<close>

theorem removeRequests_idempotent:
  "removeRequests (removeRequests app connID) connID = removeRequests app connID"
  by (rule App.equality)
     (simp_all add: Requests_removeRequests mate_removeRequests socket_removeRequests)

subsection \<open>Teleport and setdata\<close>

text \<open>
  C6. A teleport message that carries the five numbers makes
  \<^verbatim>\<open>handleTeleportMessage\<close> issue exactly seven \<^verbatim>\<open>SetSimObjectData\<close> writes and
  nothing else: latitude, longitude, altitude, true heading and true airspeed with the
  values of the message, then bank and pitch with 0; and the message loop hands a message
  of type \<^verbatim>\<open>teleport\<close> to this handler.
\<close>

theorem handleTeleportMessage_writes:
  assumes "Data msg ''latitude'' = Some (IFloat64 latitude)"
      and "Data msg ''longitude'' = Some (IFloat64 longitude)"
      and "Data msg ''altitude'' = Some (IFloat64 altitude)"
      and "Data msg ''heading'' = Some (IFloat64 heading)"
      and "Data msg ''airspeed'' = Some (IFloat64 airspeed)"
  shows "handleTeleportMessage app msg =
     Inr (app\<lparr>mate := mate app @
       [SetSimObjectData ''PLANE LATITUDE'' ''degrees'' latitude DataTypeFloat64,
        SetSimObjectData ''PLANE LONGITUDE'' ''degrees'' longitude DataTypeFloat64,
        SetSimObjectData ''PLANE ALTITUDE'' ''feet'' altitude DataTypeFloat64,
        SetSimObjectData ''PLANE HEADING DEGREES TRUE'' ''degrees'' heading DataTypeFloat64,
        SetSimObjectData ''AIRSPEED TRUE'' ''knot'' airspeed DataTypeFloat64,
        SetSimObjectData ''PLANE BANK DEGREES'' ''degrees'' 0 DataTypeFloat64,
        SetSimObjectData ''PLANE PITCH DEGREES'' ''degrees'' 0 DataTypeFloat64]\<rparr>) \<and>
     (Type msg = ''teleport'' \<longrightarrow>
        handleSocketEvent sc app (SocketEventMessage uuid msg raw) =
          handleTeleportMessage app msg)"
  using assms by (simp add: handleTeleportMessage_def handleSocketEvent_def bind_def)

theorem handleTeleportMessage_writes_witness:
  "handleSocketEvent demo_simconnect NewApp (SocketEventMessage ''A'' teleport_msg []) =
     Inr \<lparr>Requests = [], mate =
       [SetSimObjectData ''PLANE LATITUDE'' ''degrees'' 47 DataTypeFloat64,
        SetSimObjectData ''PLANE LONGITUDE'' ''degrees'' 8 DataTypeFloat64,
        SetSimObjectData ''PLANE ALTITUDE'' ''feet'' 1200 DataTypeFloat64,
        SetSimObjectData ''PLANE HEADING DEGREES TRUE'' ''degrees'' 90 DataTypeFloat64,
        SetSimObjectData ''AIRSPEED TRUE'' ''knot'' 120 DataTypeFloat64,
        SetSimObjectData ''PLANE BANK DEGREES'' ''degrees'' 0 DataTypeFloat64,
        SetSimObjectData ''PLANE PITCH DEGREES'' ''degrees'' 0 DataTypeFloat64], socket = []\<rparr>"
  using handleTeleportMessage_writes [of teleport_msg 47 8 1200 90 120 NewApp demo_simconnect
      "''A''" "[]"]
  by (simp add: teleport_msg_def NewApp_def)

lemma is_string_iff: "is_string x = (\<exists>s. x = Some (IString s))"
  by (induction x rule: is_string.induct) simp_all

lemma is_float64_iff: "is_float64 x = (\<exists>y. x = Some (IFloat64 y))"
  by (induction x rule: is_float64.induct) simp_all

lemma isl_bind_assert_string:
  "isl (bind (assert_string k x) f) =
     (\<not> is_string x \<or> (\<exists>s. x = Some (IString s) \<and> isl (f s)))"
  by (induction k x rule: assert_string.induct) (simp_all add: bind_def)

lemma isl_bind_assert_float64:
  "isl (bind (assert_float64 k x) f) =
     (\<not> is_float64 x \<or> (\<exists>y. x = Some (IFloat64 y) \<and> isl (f y)))"
  by (induction k x rule: assert_float64.induct) (simp_all add: bind_def)

lemma isl_handleSetDataMessage: "isl (handleSetDataMessage app msg) = (\<not> setdata_fields msg)"
  by (auto simp add: handleSetDataMessage_def setdata_fields_def isl_bind_assert_string
      isl_bind_assert_float64 is_string_iff is_float64_iff)

lemma isl_handleTeleportMessage: "isl (handleTeleportMessage app msg) = (\<not> teleport_fields msg)"
  by (auto simp add: handleTeleportMessage_def teleport_fields_def isl_bind_assert_float64
      is_float64_iff Let_def)

lemma isl_handleSocketEvent: "isl (handleSocketEvent sc app event) = malformed event"
  by (cases event)
     (simp_all add: handleSocketEvent_def isl_handleSetDataMessage isl_handleTeleportMessage
        handleDeregisterMessage_def)

lemma isl_handleSocketMessages:
  "isl (handleSocketMessages sc app events) = list_ex malformed events"
proof (induction events arbitrary: app)
  case Nil
  show ?case by simp
next
  case (Cons event events)
  show ?case
  proof (cases "handleSocketEvent sc app event")
    case (Inl p)
    with isl_handleSocketEvent [of sc app event] show ?thesis by simp
  next
    case (Inr app')
    with isl_handleSocketEvent [of sc app event] Cons.IH [of app'] show ?thesis by simp
  qed
qed

text \<open>
  C4, as the code has it. A setdata message without a string \<^verbatim>\<open>name\<close> makes
  \<^verbatim>\<open>handleSetDataMessage\<close> panic at its first type assertion, and the loop that
  handles the messages ends there: the teleport message that follows is never handled.
\<close>

theorem setdata_without_name_panics:
  "handleSetDataMessage (NewApp :: real App) setdata_no_name =
     Inl (InterfaceConversion ''name'') \<and>
   handleSocketMessages demo_simconnect NewApp
     [SocketEventMessage ''A'' setdata_no_name [], SocketEventMessage ''B'' teleport_msg []] =
     Inl (InterfaceConversion ''name'')"
  by (simp add: handleSetDataMessage_def handleSocketEvent_def bind_def setdata_no_name_def)

text \<open>
  C4, amended. Handling one event panics exactly when the event is a setdata message
  whose data lacks a string \<^verbatim>\<open>name\<close>, a string \<^verbatim>\<open>unit\<close> or a number
  \<^verbatim>\<open>value\<close>, or a teleport message whose data lacks one of its five numbers; every
  other event (connect, disconnect, register, deregister, a well-formed setdata or
  teleport, an unknown type) is handled without panic. Handling a sequence of events ends
  in a panic exactly when one of them is malformed in that sense.
\<close>

theorem panic_iff_malformed:
  "isl (handleSocketEvent sc app event) = malformed event \<and>
   isl (handleSocketMessages sc app events) = list_ex malformed events"
  by (simp add: isl_handleSocketEvent isl_handleSocketMessages)

subsection \<open>The status broadcast\<close>

lemma broadcasts_append: "broadcasts (xs @ ys) = broadcasts xs @ broadcasts ys"
  by (induction xs rule: broadcasts.induct) simp_all

lemma sent_to_append: "sent_to c (xs @ ys) = sent_to c xs @ sent_to c ys"
  by (induction c xs rule: sent_to.induct) simp_all

lemma range_Requests_sends:
  "\<exists>sends. range_Requests sc rs calls = calls @ sends \<and> broadcasts sends = []"
proof (induction rs arbitrary: calls)
  case Nil
  show ?case by simp
next
  case (Cons r rs)
  show ?case
  proof (cases "json_Marshal sc (JObject (simvars_msg sc r))")
    case None
    with Cons.IH [of calls] show ?thesis by (simp add: Let_def)
  next
    case (Some buf)
    from Cons.IH [of "calls @ [Send (ClientID r) buf]"] obtain sends
      where "range_Requests sc rs (calls @ [Send (ClientID r) buf]) =
               (calls @ [Send (ClientID r) buf]) @ sends"
        and "broadcasts sends = []" by blast
    with Some show ?thesis
      by (intro exI [of _ "Send (ClientID r) buf # sends"]) (simp add: Let_def)
  qed
qed

lemma json_Marshal_status: "json_Marshal sc (status_msg sc') = Some (status_msg sc')"
  by (simp add: json_Marshal_def status_msg_def)

text \<open>
  C5, as the code has it. The status payload broadcast on a tick carries the connectivity
  under the key \<^verbatim>\<open>simconnect\<close>; it is not the payload with the key
  \<^verbatim>\<open>connected\<close>.
\<close>

theorem status_key_is_simconnect:
  "broadcasts (socket (OnDataReady demo_simconnect two_clients)) =
     [JObject [(''type'', JString ''status''),
               (''data'', JObject [(''simconnect'', JBool True)])]] \<and>
   broadcasts (socket (OnDataReady demo_simconnect two_clients)) \<noteq>
     [JObject [(''type'', JString ''status''),
               (''data'', JObject [(''connected'', JBool True)])]]"
  by (simp add: OnDataReady_def BroadcastStatusMessage_def json_Marshal_def status_msg_def
      two_clients_def request_A_def request_B_def simvars_msg_def demo_simconnect_def
      demo_values_def Let_def broadcasts_append)

text \<open>
  C5, amended. A data-ready tick appends calls to the socket; the last of them, after the
  Requests have been processed, is a broadcast of
  \<^verbatim>\<open>{"type": "status", "data": {"simconnect": b}}\<close>, where \<open>b\<close> is what
  \<^verbatim>\<open>IsConnected\<close> reports, and it is the only broadcast of the tick.
\<close>

theorem OnDataReady_status:
  "\<exists>new. socket (OnDataReady sc app) = socket app @ new \<and>
     last new = Broadcast (JObject [(''type'', JString ''status''),
        (''data'', JObject [(''simconnect'', JBool (IsConnected sc))])]) \<and>
     broadcasts new = [JObject [(''type'', JString ''status''),
        (''data'', JObject [(''simconnect'', JBool (IsConnected sc))])]]"
proof -
  from range_Requests_sends [of sc "Requests app" "socket app"] obtain sends
    where s: "range_Requests sc (Requests app) (socket app) = socket app @ sends"
      and b: "broadcasts sends = []" by blast
  have "socket (OnDataReady sc app) = socket app @ (sends @ [Broadcast (status_msg sc)])"
    by (simp add: OnDataReady_def BroadcastStatusMessage_def json_Marshal_status s)
  moreover have "last (sends @ [Broadcast (status_msg sc)]) = Broadcast (status_msg sc)"
    by simp
  moreover have "broadcasts (sends @ [Broadcast (status_msg sc)]) = [status_msg sc]"
    by (simp add: broadcasts_append b)
  ultimately show ?thesis
    unfolding status_msg_def Let_def by blast
qed

subsection \<open>The payloads of a tick\<close>

lemma switch_dataType_converted: "switch_dataType typ x = converted typ x"
  by (cases "typ") (simp_all add: converted_def string_types_def)


lemma range_Vars_step:
  "range_Vars sc ((d, v) # rest) vars =
     range_Vars sc rest
       (case found_value sc d of None \<Rightarrow> vars | Some c \<Rightarrow> AList.update (Moniker v) (JScalar c) vars)"
proof (cases "SimVarValueAndDataType sc d")
  case (fields "value" dataType ok)
  show ?thesis
  proof (cases "value")
    case None
    with fields show ?thesis by (simp add: found_value_def)
  next
    case (Some x)
    with fields show ?thesis
      by (cases ok) (simp_all add: found_value_def switch_dataType_converted split: option.split)
  qed
qed

lemma range_Vars_other:
  "a \<notin> (\<lambda>(d, v). Moniker v) ` set vs \<Longrightarrow> map_of (range_Vars sc vs acc) a = map_of acc a"
proof (induction vs arbitrary: acc)
  case Nil
  show ?case by simp
next
  case (Cons dv vs)
  obtain d v where dv: "dv = (d, v)" by (cases dv)
  from Cons.prems dv have ne: "Moniker v \<noteq> a" and rest: "a \<notin> (\<lambda>(d, v). Moniker v) ` set vs"
    by auto
  show ?case
    unfolding dv range_Vars_step
    using ne by (simp add: Cons.IH [OF rest] update_conv' split: option.split)
qed

lemma range_Vars_alias:
  assumes "distinct (map (\<lambda>(d, v). Moniker v) vs)" and "(d, v) \<in> set vs"
  shows "map_of (range_Vars sc vs acc) (Moniker v) =
     (case found_value sc d of None \<Rightarrow> map_of acc (Moniker v) | Some c \<Rightarrow> Some (JScalar c))"
  using assms
proof (induction vs arbitrary: acc)
  case Nil
  then show ?case by simp
next
  case (Cons dv vs)
  obtain d' v' where dv: "dv = (d', v')" by (cases dv)
  from Cons.prems(1) dv have fresh: "Moniker v' \<notin> (\<lambda>(d, v). Moniker v) ` set vs"
    and dist: "distinct (map (\<lambda>(d, v). Moniker v) vs)" by auto
  show ?case
  proof (cases "(d, v) = (d', v')")
    case True
    with fresh show ?thesis
      unfolding dv range_Vars_step
      by (simp add: range_Vars_other update_conv' split: option.split)
  next
    case False
    with Cons.prems(2) dv have mem: "(d, v) \<in> set vs" by auto
    with fresh have "Moniker v \<noteq> Moniker v'" by force
    then show ?thesis
      unfolding dv range_Vars_step
      by (simp add: Cons.IH [OF dist mem] update_conv' split: option.split)
  qed
qed

lemma find_append_cases:
  "find P (xs @ ys) = (case find P xs of None \<Rightarrow> find P ys | Some x \<Rightarrow> Some x)"
  by (induction xs) simp_all

lemma range_Vars_last_found:
  "map_of (range_Vars sc vs acc) a =
     (case find (\<lambda>(d, v). Moniker v = a \<and> found_value sc d \<noteq> None) (rev vs) of
        None \<Rightarrow> map_of acc a
      | Some (d, v) \<Rightarrow> map_option JScalar (found_value sc d))"
proof (induction vs arbitrary: acc)
  case Nil
  show ?case by simp
next
  case (Cons dv vs)
  obtain d v where dv: "dv = (d, v)" by (cases dv)
  show ?case
    unfolding dv range_Vars_step Cons.IH
    by (auto simp add: find_append_cases update_conv' split: option.splits)
qed

lemma range_Vars_alias_value: "map_of (range_Vars sc (Vars r) []) = alias_value sc r"
  by (rule ext) (simp add: range_Vars_last_found alias_value_def split: option.split)

lemma simvars_msg_fields:
  "simvars_msg sc r =
     [(''type'', JString ''simvars''), (''meta'', JString (Request.Meta r)),
      (''data'', JObject (range_Vars sc (Vars r) []))]"
  by (simp add: simvars_msg_def Let_def)

lemma range_Requests_calls:
  "range_Requests sc rs calls = calls @ concat (map (request_calls sc) rs)"
  by (induction rs arbitrary: calls) (simp_all add: request_calls_def Let_def split: option.split)

lemma set_update: "set (AList.update k v al) \<subseteq> insert (k, v) (set al)"
  by (induction al) auto

lemma range_Vars_keys:
  "fst ` set (range_Vars sc vs acc) \<subseteq> fst ` set acc \<union> (\<lambda>(d, v). Moniker v) ` set vs"
proof (induction vs arbitrary: acc)
  case Nil
  show ?case by simp
next
  case (Cons dv vs)
  obtain d v where dv: "dv = (d, v)" by (cases dv)
  show ?case
  proof (cases "found_value sc d")
    case None
    with Cons.IH [of acc] show ?thesis
      unfolding dv range_Vars_step by auto
  next
    case (Some c)
    with Cons.IH [of "AList.update (Moniker v) (JScalar c) acc"] show ?thesis
      unfolding dv range_Vars_step by (auto simp add: dom_update)
  qed
qed

lemma range_Vars_distinct:
  "distinct (map fst acc) \<Longrightarrow> distinct (map fst (range_Vars sc vs acc))"
proof (induction vs arbitrary: acc)
  case Nil
  then show ?case by simp
next
  case (Cons dv vs)
  obtain d v where dv: "dv = (d, v)" by (cases dv)
  show ?case
    unfolding dv range_Vars_step
    by (cases "found_value sc d") (simp_all add: Cons.IH Cons.prems distinct_update)
qed

lemma encodes_simvars_msg:
  "encodes (json_encodes sc) (JObject (simvars_msg sc r)) = payload_encodes sc r"
proof -
  let ?vars = "range_Vars sc (Vars r) []"
  have dist: "distinct (map fst ?vars)"
    by (rule range_Vars_distinct) simp
  have keys: "fst ` set ?vars \<subseteq> (\<lambda>(d, v). Moniker v) ` set (Vars r)"
    using range_Vars_keys [of sc "Vars r" "[]"] by simp
  have "(\<forall>kj\<in>set ?vars. encodes (json_encodes sc) (snd kj)) =
        (\<forall>dv\<in>set (Vars r). case map_of ?vars (Moniker (snd dv)) of
                                None \<Rightarrow> True | Some j \<Rightarrow> encodes (json_encodes sc) j)"
  proof
    assume all: "\<forall>kj\<in>set ?vars. encodes (json_encodes sc) (snd kj)"
    show "\<forall>dv\<in>set (Vars r). case map_of ?vars (Moniker (snd dv)) of
                                None \<Rightarrow> True | Some j \<Rightarrow> encodes (json_encodes sc) j"
    proof
      fix dv assume "dv \<in> set (Vars r)"
      show "case map_of ?vars (Moniker (snd dv)) of
              None \<Rightarrow> True | Some j \<Rightarrow> encodes (json_encodes sc) j"
      proof (cases "map_of ?vars (Moniker (snd dv))")
        case None
        then show ?thesis by simp
      next
        case (Some j)
        then have "(Moniker (snd dv), j) \<in> set ?vars" by (rule map_of_SomeD)
        with all Some show ?thesis by force
      qed
    qed
  next
    assume all: "\<forall>dv\<in>set (Vars r). case map_of ?vars (Moniker (snd dv)) of
                                None \<Rightarrow> True | Some j \<Rightarrow> encodes (json_encodes sc) j"
    show "\<forall>kj\<in>set ?vars. encodes (json_encodes sc) (snd kj)"
    proof
      fix kj assume mem: "kj \<in> set ?vars"
      obtain k j where kj: "kj = (k, j)" by (cases kj)
      from mem kj dist have look: "map_of ?vars k = Some j" by simp
      from mem kj keys obtain dv where "dv \<in> set (Vars r)" and "k = Moniker (snd dv)"
        by force
      with all look show "encodes (json_encodes sc) (snd kj)"
        by (force simp add: kj)
    qed
  qed
  then show ?thesis
    by (simp add: simvars_msg_fields payload_encodes_def list_all_iff range_Vars_alias_value
        case_prod_unfold)
qed

lemma request_calls_payload:
  "request_calls sc r =
     (if payload_encodes sc r
      then [Send (ClientID r)
              (JObject [(''type'', JString ''simvars''), (''meta'', JString (Request.Meta r)),
                        (''data'', JObject (range_Vars sc (Vars r) []))])]
      else [])"
  unfolding request_calls_def json_Marshal_def encodes_simvars_msg
  by (simp add: simvars_msg_fields)

text \<open>
  C2, as the code has it. A client registers two variables under the one alias
  \<^verbatim>\<open>m\<close>; both values are found on the tick (1200 and 123.4), and the payload sent
  to the client holds only the one visited last. And when \<^verbatim>\<open>json.Marshal\<close> cannot
  encode the values of the two registered clients, the tick sends them nothing: the status
  broadcast is its only call.
\<close>

theorem repeated_alias_or_marshal_error:
  "Requests (handleRegisterMessage demo_simconnect NewApp (register_msg ''panel4'')
       [subscription ''PLANE ALTITUDE'' ''feet'' ''Float64'' ''m'',
        subscription ''AIRSPEED TRUE'' ''knot'' ''Float64'' ''m''] ''D'') =
     [\<lparr>ClientID = ''D'', Meta = ''panel4'',
       Vars = [(1, \<lparr>Name = ''PLANE ALTITUDE'', Moniker = ''m''\<rparr>),
               (3, \<lparr>Name = ''AIRSPEED TRUE'', Moniker = ''m''\<rparr>)]\<rparr>] \<and>
   SimVarValueAndDataType demo_simconnect 1 = (Some 1200, DataTypeFloat64, True) \<and>
   SimVarValueAndDataType demo_simconnect 3 = (Some (1234 / 10), DataTypeFloat64, True) \<and>
   socket (OnDataReady demo_simconnect
      (handleRegisterMessage demo_simconnect NewApp (register_msg ''panel4'')
         [subscription ''PLANE ALTITUDE'' ''feet'' ''Float64'' ''m'',
          subscription ''AIRSPEED TRUE'' ''knot'' ''Float64'' ''m''] ''D'')) =
     [Send ''D'' (JObject [(''type'', JString ''simvars''), (''meta'', JString ''panel4''),
        (''data'', JObject [(''m'', JScalar (ValueToFloat64 (1234 / 10)))])]),
      Broadcast (status_msg demo_simconnect)] \<and>
   socket (OnDataReady (demo_simconnect\<lparr>json_encodes := (\<lambda>c. False)\<rparr>) two_clients) =
     [Broadcast (status_msg demo_simconnect)]"
  by (simp add: OnDataReady_def BroadcastStatusMessage_def json_Marshal_def status_msg_def
      simvars_msg_def handleRegisterMessage_def NewRequest_def Add_def AddRequest_def
      register_msg_def subscription_def field_def NewApp_def
      two_clients_def request_A_def request_B_def demo_defs Let_def)

text \<open>
  C2, amended. On a data-ready tick the socket receives, for every Request in turn whose
  payload \<^verbatim>\<open>json.Marshal\<close> can encode, one \<^verbatim>\<open>Send\<close> to that Request's client
  of the payload \<^verbatim>\<open>{type: "simvars", meta: Request.Meta, data: mapping}\<close>, nothing for
  a Request whose payload cannot be encoded, and then the status broadcast. The mapping
  holds under each alias the value, converted per its type, of the subscription visited
  last among those with this alias whose value is found, and has no entry for every other
  alias; so when the aliases of a Request are distinct, the mapping holds under the alias
  of each subscription that subscription's converted value when it is found and no entry
  when it is not.
\<close>

theorem OnDataReady_simvars:
  "\<exists>data.
     socket (OnDataReady sc app) =
       socket app @
       concat (map (\<lambda>r. if payload_encodes sc r
                        then [Send (ClientID r)
                                (JObject [(''type'', JString ''simvars''),
                                          (''meta'', JString (Request.Meta r)),
                                          (''data'', JObject (data r))])]
                        else [])
                   (Requests app)) @
       [Broadcast (status_msg sc)] \<and>
     (\<forall>r. map_of (data r) = alias_value sc r) \<and>
     (\<forall>r d v. distinct (map (\<lambda>(d, v). Moniker v) (Vars r)) \<longrightarrow> (d, v) \<in> set (Vars r) \<longrightarrow>
        map_of (data r) (Moniker v) = map_option JScalar (found_value sc d))"
proof -
  let ?data = "\<lambda>r. range_Vars sc (Vars r) []"
  have "request_calls sc =
      (\<lambda>r. if payload_encodes sc r
            then [Send (ClientID r)
                    (JObject [(''type'', JString ''simvars''),
                              (''meta'', JString (Request.Meta r)),
                              (''data'', JObject (?data r))])]
            else [])"
    by (rule ext) (rule request_calls_payload)
  then have "socket (OnDataReady sc app) =
       socket app @
       concat (map (\<lambda>r. if payload_encodes sc r
                        then [Send (ClientID r)
                                (JObject [(''type'', JString ''simvars''),
                                          (''meta'', JString (Request.Meta r)),
                                          (''data'', JObject (?data r))])]
                        else [])
                   (Requests app)) @
       [Broadcast (status_msg sc)]"
    by (simp add: OnDataReady_def BroadcastStatusMessage_def json_Marshal_status
        range_Requests_calls)
  moreover have "\<forall>r. map_of (?data r) = alias_value sc r"
    by (simp add: range_Vars_alias_value)
  moreover have "\<forall>r d v. distinct (map (\<lambda>(d, v). Moniker v) (Vars r)) \<longrightarrow>
        (d, v) \<in> set (Vars r) \<longrightarrow>
        map_of (?data r) (Moniker v) = map_option JScalar (found_value sc d)"
    by (auto simp add: range_Vars_alias split: option.split)
  ultimately show ?thesis by (intro exI [of _ ?data] conjI)
qed

theorem OnDataReady_simvars_witness:
  "\<exists>data.
     socket (OnDataReady demo_simconnect two_clients) =
       [Send ''A'' (JObject [(''type'', JString ''simvars''), (''meta'', JString ''panel1''),
                            (''data'', JObject (data request_A))]),
        Send ''B'' (JObject [(''type'', JString ''simvars''), (''meta'', JString ''panel2''),
                            (''data'', JObject (data request_B))]),
        Broadcast (status_msg demo_simconnect)] \<and>
     map_of (data request_A) ''spd'' = Some (JScalar (ValueToFloat64 (1234 / 10))) \<and>
     map_of (data request_B) ''airspeed'' = Some (JScalar (ValueToFloat64 (1234 / 10))) \<and>
     map_of (data request_B) ''spd'' = None"
proof -
  from OnDataReady_simvars [of demo_simconnect two_clients] obtain data where
    sock: "socket (OnDataReady demo_simconnect two_clients) =
       socket two_clients @
       concat (map (\<lambda>r. if payload_encodes demo_simconnect r
                        then [Send (ClientID r)
                                (JObject [(''type'', JString ''simvars''),
                                          (''meta'', JString (Request.Meta r)),
                                          (''data'', JObject (data r))])]
                        else [])
                   (Requests two_clients)) @
       [Broadcast (status_msg demo_simconnect)]"
    and vals: "\<forall>r. map_of (data r) = alias_value demo_simconnect r"
    and dist: "\<forall>r d v. distinct (map (\<lambda>(d, v). Moniker v) (Vars r)) \<longrightarrow>
        (d, v) \<in> set (Vars r) \<longrightarrow>
        map_of (data r) (Moniker v) = map_option JScalar (found_value demo_simconnect d)"
    by blast
  have enc: "payload_encodes demo_simconnect request_A" "payload_encodes demo_simconnect request_B"
    by (simp_all add: payload_encodes_def alias_value_def found_value_def converted_def
        request_A_def request_B_def demo_defs)
  from sock enc have "socket (OnDataReady demo_simconnect two_clients) =
       [Send ''A'' (JObject [(''type'', JString ''simvars''), (''meta'', JString ''panel1''),
                            (''data'', JObject (data request_A))]),
        Send ''B'' (JObject [(''type'', JString ''simvars''), (''meta'', JString ''panel2''),
                            (''data'', JObject (data request_B))]),
        Broadcast (status_msg demo_simconnect)]"
    by (simp add: two_clients_def) (simp add: request_A_def request_B_def)
  moreover from dist [rule_format, of request_A 3 "\<lparr>Name = ''AIRSPEED TRUE'', Moniker = ''spd''\<rparr>"]
  have "map_of (data request_A) ''spd'' = Some (JScalar (ValueToFloat64 (1234 / 10)))"
    by (simp add: request_A_def found_value_def converted_def demo_defs)
  moreover from dist [rule_format, of request_B 3 "\<lparr>Name = ''AIRSPEED TRUE'', Moniker = ''airspeed''\<rparr>"]
  have "map_of (data request_B) ''airspeed'' = Some (JScalar (ValueToFloat64 (1234 / 10)))"
    by (simp add: request_B_def found_value_def converted_def demo_defs)
  moreover from vals have "map_of (data request_B) ''spd'' = None"
    by (simp add: alias_value_def request_B_def)
  ultimately show ?thesis by (intro exI [of _ data] conjI)
qed

subsection \<open>Values that are found but not handled\<close>





subsection \<open>Registering again\<close>

lemma sent_to_other: "ClientID r \<noteq> c \<Longrightarrow> sent_to c (request_calls sc r) = []"
  by (simp add: request_calls_def split: option.split)

lemma sent_to_others:
  "\<forall>r\<in>set rs. ClientID r \<noteq> c \<Longrightarrow> sent_to c (concat (map (request_calls sc) rs)) = []"
  by (induction rs) (simp_all add: sent_to_append sent_to_other)

lemma sent_to_own:
  "set (sent_to c (request_calls sc r)) \<subseteq> {JObject (simvars_msg sc r)}"
  by (auto simp add: request_calls_def json_Marshal_def split: option.splits if_splits)

lemma ArrayEach_request:
  "ClientID (fst (ArrayEach sc raw (request, calls))) = ClientID request \<and>
   (\<lambda>(d, v). Moniker v) ` set (Vars (fst (ArrayEach sc raw (request, calls)))) \<subseteq>
     (\<lambda>(d, v). Moniker v) ` set (Vars request) \<union> (\<lambda>e. field e ''moniker'') ` set raw"
proof (induction raw arbitrary: request calls)
  case Nil
  show ?case by simp
next
  case (Cons e raw)
  let ?d = "AddSimVar_defineID sc calls (field e ''name'') (field e ''unit'')
              (StringToDataType sc (field e ''type''))"
  let ?r = "Add request ?d (field e ''name'') (field e ''moniker'')"
  let ?calls = "calls @ [AddSimVar (field e ''name'') (field e ''unit'')
              (StringToDataType sc (field e ''type''))]"
  have step: "ArrayEach sc (e # raw) (request, calls) = ArrayEach sc raw (?r, ?calls)"
    by (simp add: Let_def)
  have "set (Vars ?r) \<subseteq>
          insert (?d, \<lparr>Name = field e ''name'', Moniker = field e ''moniker''\<rparr>) (set (Vars request))"
    using set_update [of ?d "\<lparr>Name = field e ''name'', Moniker = field e ''moniker''\<rparr>" "Vars request"]
    by (simp add: Add_def)
  then have sub: "(\<lambda>(d, v). Moniker v) ` set (Vars ?r) \<subseteq>
          insert (field e ''moniker'') ((\<lambda>(d, v). Moniker v) ` set (Vars request))"
    by force
  have client: "ClientID ?r = ClientID request" by (simp add: Add_def)
  from Cons.IH [of ?r ?calls]
  have ih1: "ClientID (fst (ArrayEach sc raw (?r, ?calls))) = ClientID ?r"
    and ih2: "(\<lambda>(d, v). Moniker v) ` set (Vars (fst (ArrayEach sc raw (?r, ?calls)))) \<subseteq>
      (\<lambda>(d, v). Moniker v) ` set (Vars ?r) \<union> (\<lambda>e. field e ''moniker'') ` set raw"
    by blast+
  from ih2 sub
  have "(\<lambda>(d, v). Moniker v) ` set (Vars (fst (ArrayEach sc raw (?r, ?calls)))) \<subseteq>
      (\<lambda>(d, v). Moniker v) ` set (Vars request) \<union> (\<lambda>e. field e ''moniker'') ` set (e # raw)"
    by auto
  with ih1 client show ?case
    unfolding step by simp
qed

lemma ArrayEach_calls:
  "snd (ArrayEach sc raw (request, calls)) =
     calls @ map (\<lambda>e. AddSimVar (field e ''name'') (field e ''unit'')
                        (StringToDataType sc (field e ''type''))) raw"
  by (induction raw arbitrary: request calls) (simp_all add: Let_def)

text \<open>
  C3. After a register message from a client, whatever Requests the registry held before,
  every payload that the next data-ready tick sends to that client has no entry under an
  alias that the message does not list. (\<^verbatim>\<open>AddRequest\<close> is the specification's
  upsert.)
\<close>

theorem reregister_replaces:
  assumes "alias \<notin> (\<lambda>e. field e ''moniker'') ` set raw"
  shows "\<exists>new. socket (OnDataReady sc' (handleRegisterMessage sc app msg raw connID)) =
                 socket app @ new \<and>
           (\<forall>p\<in>set (sent_to connID new).
              \<exists>fields data. p = JObject fields \<and> map_of fields ''data'' = Some (JObject data) \<and>
                map_of data alias = None)"
proof -
  obtain request calls
    where ae: "ArrayEach sc raw (NewRequest connID (Message.Meta msg), mate app) = (request, calls)"
    by (cases "ArrayEach sc raw (NewRequest connID (Message.Meta msg), mate app)")
  from ArrayEach_request [of sc raw "NewRequest connID (Message.Meta msg)" "mate app"] ae
  have client: "ClientID request = connID"
    and monikers: "(\<lambda>(d, v). Moniker v) ` set (Vars request) \<subseteq> (\<lambda>e. field e ''moniker'') ` set raw"
    by (simp_all add: NewRequest_def)
  let ?app = "handleRegisterMessage sc app msg raw connID"
  let ?others = "filter (\<lambda>r. ClientID r \<noteq> connID) (Requests app)"
  let ?new = "concat (map (request_calls sc') ?others) @ request_calls sc' request @
              [Broadcast (status_msg sc')]"
  have reqs: "Requests ?app = ?others @ [request]" and sock: "socket ?app = socket app"
    by (simp_all add: handleRegisterMessage_def ae AddRequest_def client)
  have "socket (OnDataReady sc' ?app) = socket app @ ?new"
    by (simp add: OnDataReady_def BroadcastStatusMessage_def json_Marshal_status
        range_Requests_calls reqs sock)
  moreover have "sent_to connID ?new = sent_to connID (request_calls sc' request)"
    by (simp add: sent_to_append sent_to_others)
  moreover from assms monikers have "map_of (range_Vars sc' (Vars request) []) alias = None"
    by (subst range_Vars_other) auto
  ultimately show ?thesis
    using sent_to_own [of connID sc' request]
    by (intro exI [of _ ?new]) (auto simp add: simvars_msg_fields)
qed

theorem reregister_replaces_witness:
  "''spd'' \<notin> (\<lambda>e. field e ''moniker'') `
      set [subscription ''PLANE ALTITUDE'' ''feet'' ''Float64'' ''alt''] \<and>
   sent_to ''A'' (socket (OnDataReady demo_simconnect two_clients)) =
     [JObject [(''type'', JString ''simvars''), (''meta'', JString ''panel1''),
               (''data'', JObject [(''spd'', JScalar (ValueToFloat64 (1234 / 10)))])]] \<and>
   (\<exists>new. socket (OnDataReady demo_simconnect
              (handleRegisterMessage demo_simconnect two_clients (register_msg ''panel1'')
                 [subscription ''PLANE ALTITUDE'' ''feet'' ''Float64'' ''alt''] ''A'')) =
             socket two_clients @ new \<and>
          sent_to ''A'' new =
            [JObject [(''type'', JString ''simvars''), (''meta'', JString ''panel1''),
                      (''data'', JObject [(''alt'', JScalar (ValueToFloat64 1200))])]])"
proof -
  let ?raw = "[subscription ''PLANE ALTITUDE'' ''feet'' ''Float64'' ''alt'']"
  let ?app = "handleRegisterMessage demo_simconnect two_clients (register_msg ''panel1'') ?raw ''A''"
  have unlisted: "''spd'' \<notin> (\<lambda>e. field e ''moniker'') ` set ?raw"
    by (simp add: subscription_def field_def)
  from reregister_replaces [OF unlisted, of demo_simconnect demo_simconnect two_clients
      "register_msg ''panel1''" "''A''"]
  obtain new where sock: "socket (OnDataReady demo_simconnect ?app) = socket two_clients @ new"
    by blast
  have "socket (OnDataReady demo_simconnect ?app) =
      [Send ''B'' (JObject [(''type'', JString ''simvars''), (''meta'', JString ''panel2''),
               (''data'', JObject [(''airspeed'', JScalar (ValueToFloat64 (1234 / 10)))])]),
       Send ''A'' (JObject [(''type'', JString ''simvars''), (''meta'', JString ''panel1''),
               (''data'', JObject [(''alt'', JScalar (ValueToFloat64 1200))])]),
       Broadcast (status_msg demo_simconnect)]"
    by (simp add: OnDataReady_def BroadcastStatusMessage_def json_Marshal_def status_msg_def
        simvars_msg_def handleRegisterMessage_def NewRequest_def Add_def AddRequest_def
        register_msg_def subscription_def field_def
        two_clients_def request_A_def request_B_def demo_defs Let_def)
  with sock have "sent_to ''A'' new =
            [JObject [(''type'', JString ''simvars''), (''meta'', JString ''panel1''),
                      (''data'', JObject [(''alt'', JScalar (ValueToFloat64 1200))])]]"
    by (simp add: two_clients_def)
  moreover have "sent_to ''A'' (socket (OnDataReady demo_simconnect two_clients)) =
     [JObject [(''type'', JString ''simvars''), (''meta'', JString ''panel1''),
               (''data'', JObject [(''spd'', JScalar (ValueToFloat64 (1234 / 10)))])]]"
    by (simp add: OnDataReady_def BroadcastStatusMessage_def json_Marshal_def status_msg_def
        simvars_msg_def two_clients_def request_A_def request_B_def demo_defs Let_def)
  ultimately show ?thesis using unlisted sock by blast
qed

subsection \<open>Reference counting\<close>

lemma count_vars_eq:
  "count_vars name vs count = count + int (length (filter (\<lambda>v. Name v = name) (map snd vs)))"
  by (induction vs arbitrary: count) auto

lemma count_requests_eq:
  "count_requests name rs count =
     count + int (length (filter (\<lambda>v. Name v = name) (concat (map (\<lambda>r. map snd (Vars r)) rs))))"
  by (induction rs arbitrary: count) (simp_all add: count_vars_eq)

lemma remove_vars_eq:
  "remove_vars requests vs calls =
     calls @ [RemoveSimVar d. (d, v) \<leftarrow> vs, RefCount requests (Name v) = 0]"
  by (induction vs arbitrary: calls) (auto simp add: Let_def)

lemma remove_removed_eq:
  "remove_removed requests removed calls =
     calls @ [RemoveSimVar d. r \<leftarrow> removed, (d, v) \<leftarrow> Vars r, RefCount requests (Name v) = 0]"
  by (induction removed arbitrary: calls) (simp_all add: remove_vars_eq)

lemma concat_map_filter:
  "concat (map f (filter P xs)) = concat (map (\<lambda>x. if P x then f x else []) xs)"
  by (induction xs) simp_all

text \<open>
  C1, as the code has it. With a simulator library that hands out one defineID per
  (name, unit): client A subscribes to the altitude in feet (defineID 1), client B to the
  altitude in meters (defineID 2), then both deregister. When A leaves, the count of the
  name is still 1, so defineID 1 is not removed, and it never is: at the end no Request is
  left and only \<^verbatim>\<open>RemoveSimVar(2)\<close> has been issued. And when two clients register
  the same variable, \<^verbatim>\<open>AddSimVar\<close> is issued for each of them, not only for the
  first.
\<close>

theorem registration_outlives_subscriptions:
  "handleSocketMessages demo_simconnect NewApp
     [SocketEventMessage ''A'' (register_msg ''panel1'')
        [subscription ''PLANE ALTITUDE'' ''feet'' ''Float64'' ''alt''],
      SocketEventMessage ''B'' (register_msg ''panel2'')
        [subscription ''PLANE ALTITUDE'' ''meters'' ''Float64'' ''alt''],
      deregister ''A'', deregister ''B''] =
     Inr \<lparr>Requests = [],
          mate = [AddSimVar ''PLANE ALTITUDE'' ''feet'' DataTypeFloat64,
                  AddSimVar ''PLANE ALTITUDE'' ''meters'' DataTypeFloat64,
                  RemoveSimVar 2],
          socket = []\<rparr> \<and>
   handleSocketMessages demo_simconnect NewApp
     [SocketEventMessage ''A'' (register_msg ''panel1'')
        [subscription ''AIRSPEED TRUE'' ''knot'' ''Float64'' ''spd''],
      SocketEventMessage ''B'' (register_msg ''panel2'')
        [subscription ''AIRSPEED TRUE'' ''knot'' ''Float64'' ''airspeed'']] =
     Inr two_clients"
  by (simp add: demo_defs NewApp_def register_msg_def subscription_def deregister_def
      handleSocketEvent_def handleRegisterMessage_def handleDeregisterMessage_def
      removeRequests_def NewRequest_def Add_def AddRequest_def RefCount_def field_def Let_def
      two_clients_def request_A_def request_B_def)

text \<open>
  C1, amended. The reference count of a name is the number of subscriptions with that
  name over all Requests, so it is never negative. \<^verbatim>\<open>handleRegisterMessage\<close>
  issues \<^verbatim>\<open>AddSimVar\<close> once for every entry of the message, whatever the count.
  \<^verbatim>\<open>removeRequests\<close> issues \<^verbatim>\<open>RemoveSimVar\<close> once for every subscription
  of the client's Requests whose name no remaining Request subscribes to, and issues
  nothing else.
\<close>

theorem reference_counting:
  "RefCount requests name =
     int (length (filter (\<lambda>v. Name v = name) (concat (map (\<lambda>r. map snd (Vars r)) requests)))) \<and>
   0 \<le> RefCount requests name \<and>
   mate (handleRegisterMessage sc app msg raw connID) =
     mate app @ map (\<lambda>e. AddSimVar (field e ''name'') (field e ''unit'')
                          (StringToDataType sc (field e ''type''))) raw \<and>
   mate (removeRequests app connID) =
     mate app @ [RemoveSimVar d. r \<leftarrow> Requests app, ClientID r = connID, (d, v) \<leftarrow> Vars r,
                  RefCount (Requests (removeRequests app connID)) (Name v) = 0]"
proof (intro conjI)
  show "RefCount requests name =
     int (length (filter (\<lambda>v. Name v = name) (concat (map (\<lambda>r. map snd (Vars r)) requests))))"
    by (simp add: RefCount_def count_requests_eq)
  then show "0 \<le> RefCount requests name" by simp
  have "snd (ArrayEach sc raw (NewRequest connID (Message.Meta msg), mate app)) =
     mate app @ map (\<lambda>e. AddSimVar (field e ''name'') (field e ''unit'')
                          (StringToDataType sc (field e ''type''))) raw"
    by (rule ArrayEach_calls)
  then show "mate (handleRegisterMessage sc app msg raw connID) =
     mate app @ map (\<lambda>e. AddSimVar (field e ''name'') (field e ''unit'')
                          (StringToDataType sc (field e ''type''))) raw"
    by (cases "ArrayEach sc raw (NewRequest connID (Message.Meta msg), mate app)")
       (simp add: handleRegisterMessage_def)
  have "[RemoveSimVar d. r \<leftarrow> filter (\<lambda>r. ClientID r = connID) (Requests app), (d, v) \<leftarrow> Vars r,
                  RefCount rs (Name v) = 0] =
        [RemoveSimVar d. r \<leftarrow> Requests app, ClientID r = connID, (d, v) \<leftarrow> Vars r,
                  RefCount rs (Name v) = 0]" for rs
    by (simp add: concat_map_filter)
  then show "mate (removeRequests app connID) =
     mate app @ [RemoveSimVar d. r \<leftarrow> Requests app, ClientID r = connID, (d, v) \<leftarrow> Vars r,
                  RefCount (Requests (removeRequests app connID)) (Name v) = 0]"
    unfolding Requests_removeRequests by (simp add: mate_removeRequests remove_removed_eq)
qed

end
